theory Spec2Isabelle
  imports Main "HOL-Library.AList" "HOL-Library.Char_ord" "HOL-Library.List_Lexorder"
begin

section \<open>Tool registry (package registry)\<close>

text \<open>
  A Go \<^verbatim>\<open>map[string]T\<close> is modelled as an association list with one entry per key:
  a store is \<open>AList.update\<close>, a delete keeps the entries that stay. The order of the
  list stands for the iteration order of the map, which Go leaves unspecified, so every
  statement about a snapshot is made on the \<open>set\<close> of its elements or on \<open>map_of\<close>.
\<close>

text \<open>
  What a call comes to: it returns a value, it panics (Go has no way back from a panic
  that nothing recovers), or it never returns.
\<close>

datatype 'a outcome = Returns 'a | Panics string | Hangs

record Tool =
  ID :: string
  Name :: string
  Description :: string
  PluginID :: string

text \<open>
  A subscriber channel is \<^verbatim>\<open>make(chan []Tool, 1)\<close>: a queue of snapshots with room for
  one element. Channels live in a heap indexed by handles, because the registry and the
  subscriber share them.
\<close>

record chan =
  buf :: "Tool list list"
  is_closed :: bool

definition chan_cap :: nat where
  "chan_cap = 1"

definition make_chan :: chan where
  "make_chan = \<lparr>buf = [], is_closed = False\<rparr>"

text \<open>\<^verbatim>\<open>select { case ch <- v: default: }\<close>: the value is queued when the buffer has
  room and dropped otherwise; the queued element is never touched.\<close>

definition try_send :: "Tool list \<Rightarrow> chan \<Rightarrow> chan" where
  "try_send v c = (if length (buf c) < chan_cap then c\<lparr>buf := buf c @ [v]\<rparr> else c)"

text \<open>A receive by the subscriber takes the oldest queued snapshot, when there is one.\<close>

definition recv :: "chan \<Rightarrow> Tool list option \<times> chan" where
  "recv c = (case buf c of [] \<Rightarrow> (None, c) | v # vs \<Rightarrow> (Some v, c\<lparr>buf := vs\<rparr>))"

record Registry =
  tools :: "(string \<times> Tool) list"
  subs :: "nat list"
  chans :: "nat \<Rightarrow> chan"
  next_chan :: nat

definition Registry_New :: Registry where
  "Registry_New = \<lparr>tools = [], subs = [], chans = (\<lambda>_. make_chan), next_chan = 0\<rparr>"

definition sliceLocked :: "Registry \<Rightarrow> Tool list" where
  "sliceLocked r = map snd (tools r)"

definition Registry_List :: "Registry \<Rightarrow> Tool list" where
  "Registry_List r = map snd (tools r)"

text \<open>
  \<^verbatim>\<open>broadcastLocked\<close> offers the snapshot to every channel of the subscriber set. A
  send on a closed channel would panic; the only place that closes a channel is
  \<^verbatim>\<open>Unsubscribe\<close>, which first takes it out of the set, so the channels met here are
  open (\<open>subs_open_preserved\<close> below).
\<close>

definition send_to :: "Tool list \<Rightarrow> nat \<Rightarrow> (nat \<Rightarrow> chan) \<Rightarrow> (nat \<Rightarrow> chan)" where
  "send_to v ch h = h(ch := try_send v (h ch))"

definition broadcastLocked :: "Registry \<Rightarrow> Registry" where
  "broadcastLocked r =
     (let snapshot = sliceLocked r
      in r\<lparr>chans := fold (send_to snapshot) (subs r) (chans r)\<rparr>)"

definition store_tool :: "string \<Rightarrow> Tool \<Rightarrow> (string \<times> Tool) list \<Rightarrow> (string \<times> Tool) list" where
  "store_tool pluginID t al = AList.update (ID t) (t\<lparr>PluginID := pluginID\<rparr>) al"

definition RegisterTools :: "string \<Rightarrow> Tool list \<Rightarrow> Registry \<Rightarrow> Registry" where
  "RegisterTools pluginID ts r =
     broadcastLocked (r\<lparr>tools := fold (store_tool pluginID) ts (tools r)\<rparr>)"

definition UnregisterTools :: "string \<Rightarrow> Registry \<Rightarrow> Registry" where
  "UnregisterTools pluginID r =
     broadcastLocked (r\<lparr>tools := filter (\<lambda>(tid, tool). PluginID tool \<noteq> pluginID) (tools r)\<rparr>)"

text \<open>\<^verbatim>\<open>Subscribe\<close> allocates the channel, adds it to the subscriber set and sends the
  initial snapshot; the buffer of the fresh channel is empty, so that send does not block.\<close>

definition Subscribe :: "Registry \<Rightarrow> nat \<times> Registry" where
  "Subscribe r =
     (let ch = next_chan r;
          c = make_chan\<lparr>buf := [sliceLocked r]\<rparr>
      in (ch, r\<lparr>subs := List.insert ch (subs r),
                chans := (chans r)(ch := c),
                next_chan := Suc ch\<rparr>))"

text \<open>\<^verbatim>\<open>Unsubscribe\<close> deletes the channel from the subscriber set and closes it; closing a
  channel that is closed already (a second \<^verbatim>\<open>Unsubscribe\<close> of the same channel) panics.\<close>

definition Unsubscribe :: "nat \<Rightarrow> Registry \<Rightarrow> Registry outcome" where
  "Unsubscribe ch r =
     (if is_closed (chans r ch) then Panics ''close of closed channel''
      else Returns (r\<lparr>subs := removeAll ch (subs r),
                     chans := (chans r)(ch := (chans r ch)\<lparr>is_closed := True\<rparr>)\<rparr>))"

text \<open>The subscriber's side: take the queued snapshot off channel \<open>ch\<close>.\<close>

definition consume :: "nat \<Rightarrow> Registry \<Rightarrow> Tool list option \<times> Registry" where
  "consume ch r = (let (v, c) = recv (chans r ch) in (v, r\<lparr>chans := (chans r)(ch := c)\<rparr>))"

text \<open>Every channel of the subscriber set is open.\<close>

definition subs_open :: "Registry \<Rightarrow> bool" where
  "subs_open r \<longleftrightarrow> (\<forall>ch \<in> set (subs r). \<not> is_closed (chans r ch))"

subsection \<open>Facts about the registry\<close>

lemma try_send_idem: "try_send v (try_send v c) = try_send v c"
  by (simp add: try_send_def chan_cap_def)

lemma fold_send_apply:
  "fold (send_to v) xs h c = (if c \<in> set xs then try_send v (h c) else h c)"
proof (induction xs arbitrary: h)
  case Nil
  show ?case by simp
next
  case (Cons x xs)
  have "fold (send_to v) (x # xs) h c = fold (send_to v) xs (send_to v x h) c"
    by simp
  also have "\<dots> = (if c \<in> set xs then try_send v (send_to v x h c) else send_to v x h c)"
    by (rule Cons.IH)
  also have "\<dots> = (if c \<in> set (x # xs) then try_send v (h c) else h c)"
    by (simp add: send_to_def try_send_idem)
  finally show ?case .
qed

lemma tools_broadcastLocked: "tools (broadcastLocked r) = tools r"
  by (simp add: broadcastLocked_def)

lemma subs_broadcastLocked: "subs (broadcastLocked r) = subs r"
  by (simp add: broadcastLocked_def)

lemma chans_broadcastLocked:
  "chans (broadcastLocked r) ch =
     (if ch \<in> set (subs r) then try_send (sliceLocked r) (chans r ch) else chans r ch)"
  by (simp add: broadcastLocked_def fold_send_apply)

lemma is_closed_try_send: "is_closed (try_send v c) = is_closed c"
  by (simp add: try_send_def)

lemma is_closed_broadcastLocked: "is_closed (chans (broadcastLocked r) ch) = is_closed (chans r ch)"
  by (simp add: chans_broadcastLocked is_closed_try_send)

lemma subs_open_preserved:
  "subs_open Registry_New"
  "subs_open r \<Longrightarrow> subs_open (RegisterTools p ts r)"
  "subs_open r \<Longrightarrow> subs_open (UnregisterTools p r)"
  "subs_open r \<Longrightarrow> subs_open (snd (Subscribe r))"
  "subs_open r \<Longrightarrow> Unsubscribe ch r = Returns r' \<Longrightarrow> subs_open r'"
  "subs_open r \<Longrightarrow> subs_open (snd (consume ch r))"
proof -
  show "subs_open Registry_New"
    by (simp add: subs_open_def Registry_New_def)
  show "subs_open r \<Longrightarrow> subs_open (RegisterTools p ts r)"
    by (simp add: subs_open_def RegisterTools_def subs_broadcastLocked is_closed_broadcastLocked)
  show "subs_open r \<Longrightarrow> subs_open (UnregisterTools p r)"
    by (simp add: subs_open_def UnregisterTools_def subs_broadcastLocked is_closed_broadcastLocked)
  show "subs_open r \<Longrightarrow> subs_open (snd (Subscribe r))"
    by (simp add: subs_open_def Subscribe_def Let_def make_chan_def)
  show "subs_open r \<Longrightarrow> Unsubscribe ch r = Returns r' \<Longrightarrow> subs_open r'"
    by (auto simp: subs_open_def Unsubscribe_def split: if_splits)
  show "subs_open r \<Longrightarrow> subs_open (snd (consume ch r))"
    by (auto simp: subs_open_def consume_def recv_def split: prod.splits list.splits)
qed

lemma map_of_fold_store:
  "map_of (fold (store_tool p) ts al) =
     map_of al ++ map_of (rev (map (\<lambda>t. (ID t, t\<lparr>PluginID := p\<rparr>)) ts))"
proof (induction ts arbitrary: al)
  case Nil
  show ?case by simp
next
  case (Cons t ts)
  let ?rest = "map_of (rev (map (\<lambda>t. (ID t, t\<lparr>PluginID := p\<rparr>)) ts))"
  have step: "map_of (store_tool p t al) = (map_of al)(ID t \<mapsto> t\<lparr>PluginID := p\<rparr>)"
    unfolding store_tool_def by (rule update_conv')
  have "map_of (fold (store_tool p) (t # ts) al) = map_of (store_tool p t al) ++ ?rest"
    using Cons.IH [of "store_tool p t al"] by simp
  also have "\<dots> = map_of al ++ ([ID t \<mapsto> t\<lparr>PluginID := p\<rparr>] ++ ?rest)"
    unfolding step by (simp only: map_add_assoc map_add_upd map_add_empty)
  also have "[ID t \<mapsto> t\<lparr>PluginID := p\<rparr>] ++ ?rest =
      map_of (rev (map (\<lambda>t. (ID t, t\<lparr>PluginID := p\<rparr>)) (t # ts)))"
    by (simp only: list.map rev.simps map_of_append map_of.simps fst_conv snd_conv)
  finally show ?case .
qed


lemma fold_store_keys:
  "fst ` set (fold (store_tool p) ts al) = fst ` set al \<union> ID ` set ts"
proof (induction ts arbitrary: al)
  case Nil
  show ?case by simp
next
  case (Cons t ts)
  have "fst ` set (store_tool p t al) = {ID t} \<union> fst ` set al"
    unfolding store_tool_def by (rule dom_update)
  then show ?case
    using Cons.IH [of "store_tool p t al"] by auto
qed



subsection \<open>Concrete registries used as test inputs\<close>

definition echo_tool :: Tool where
  "echo_tool = \<lparr>ID = ''echo'', Name = ''echo'', Description = '''', PluginID = ''other''\<rparr>"

text \<open>A registry with one subscriber that has not read its initial snapshot, and the same
  registry after the subscriber has read it.\<close>

definition subscribed :: Registry where
  "subscribed = snd (Subscribe Registry_New)"

definition subscribed_drained :: Registry where
  "subscribed_drained = snd (consume 0 subscribed)"

lemma subscribed_simps:
  "subs subscribed = [0]" "buf (chans subscribed 0) = [[]]" "tools subscribed = []"
  by (simp_all add: subscribed_def Subscribe_def Registry_New_def make_chan_def sliceLocked_def
      Let_def)

lemma subscribed_drained_simps:
  "subs subscribed_drained = [0]" "buf (chans subscribed_drained 0) = []"
  "tools subscribed_drained = []"
  by (simp_all add: subscribed_drained_def consume_def recv_def subscribed_simps
      split: prod.splits list.splits)

subsection \<open>Registration: owner, keying by id, idempotence\<close>



subsection \<open>Broadcast to subscribers\<close>

text \<open>
  Claim C2, as the code has it. When \<open>RegisterTools\<close> or \<open>UnregisterTools\<close> returns, a
  subscriber whose one-element buffer was empty has the new snapshot queued, and that
  snapshot has the elements of \<open>Registry_List\<close>; a subscriber that has not consumed its
  queued snapshot keeps that older snapshot, and the new one is dropped, not put in its
  place. The subscriber set is unchanged.
\<close>

theorem broadcast_keeps_unconsumed_snapshot:
  assumes "ch \<in> set (subs r)"
    and "r' = RegisterTools p ts r \<or> r' = UnregisterTools p r"
  shows "buf (chans r' ch) = (if buf (chans r ch) = [] then [sliceLocked r'] else buf (chans r ch))
       \<and> set (sliceLocked r') = set (Registry_List r')
       \<and> subs r' = subs r"
proof -
  have send: "buf (try_send v c) = (if buf c = [] then [v] else buf c)" for v c
    by (simp add: try_send_def chan_cap_def)
  from assms(2) show ?thesis
  proof
    assume r': "r' = RegisterTools p ts r"
    show ?thesis
      using assms(1) unfolding r' RegisterTools_def
      by (simp add: chans_broadcastLocked subs_broadcastLocked send sliceLocked_def
          Registry_List_def tools_broadcastLocked)
  next
    assume r': "r' = UnregisterTools p r"
    show ?thesis
      using assms(1) unfolding r' UnregisterTools_def
      by (simp add: chans_broadcastLocked subs_broadcastLocked send sliceLocked_def
          Registry_List_def tools_broadcastLocked)
  qed
qed

theorem broadcast_keeps_unconsumed_snapshot_witness:
  "buf (chans (RegisterTools ''srv'' [echo_tool] subscribed_drained) 0)
     = [[echo_tool\<lparr>PluginID := ''srv''\<rparr>]]
   \<and> Registry_List (RegisterTools ''srv'' [echo_tool] subscribed_drained)
     = [echo_tool\<lparr>PluginID := ''srv''\<rparr>]"
  using broadcast_keeps_unconsumed_snapshot [of 0 subscribed_drained
      "RegisterTools ''srv'' [echo_tool] subscribed_drained" "''srv''" "[echo_tool]"]
  by (simp add: subscribed_drained_simps sliceLocked_def Registry_List_def RegisterTools_def
      tools_broadcastLocked store_tool_def echo_tool_def)

text \<open>
  The claim as the spec words it fails: subscribe to the empty registry, do not read the
  initial (empty) snapshot, register one tool. The channel still holds the empty snapshot
  and the registry lists the tool.
\<close>

theorem broadcast_replaces_counterexample:
  "0 \<in> set (subs (RegisterTools ''srv'' [echo_tool] subscribed))
   \<and> buf (chans (RegisterTools ''srv'' [echo_tool] subscribed) 0) = [[]]
   \<and> Registry_List (RegisterTools ''srv'' [echo_tool] subscribed)
       = [echo_tool\<lparr>PluginID := ''srv''\<rparr>]
   \<and> set (last (buf (chans (RegisterTools ''srv'' [echo_tool] subscribed) 0)))
       \<noteq> set (Registry_List (RegisterTools ''srv'' [echo_tool] subscribed))"
  by (simp add: RegisterTools_def chans_broadcastLocked subs_broadcastLocked
      tools_broadcastLocked subscribed_simps try_send_def chan_cap_def Registry_List_def
      store_tool_def echo_tool_def)

section \<open>Configuration (package config)\<close>

text \<open>
  Strings are Go strings: sequences of bytes. A nil map or slice and an empty one are both
  the empty list; the code below only asks for their length or ranges over them.
\<close>

record ServerConfig =
  Disabled :: bool
  Timeout :: int
  Env :: "(string \<times> string) list"
  Type :: string
  Command :: string
  Args :: "string list"
  URL :: string
  Headers :: "(string \<times> string) list"
  Image :: string
  Volumes :: "(string \<times> string) list"
  Network :: string
  Transport :: string

record Config =
  MCPServers :: "(string \<times> ServerConfig) list"

subsection \<open>Transport type\<close>

text \<open>
  \<^verbatim>\<open>strings.ToLower\<close> and \<^verbatim>\<open>strings.TrimSpace\<close> on the ASCII range. Go also folds
  letters and trims spaces outside ASCII (it trims U+00A0 and takes the Kelvin sign
  U+212A to \<open>k\<close>), so on a type string with such characters \<open>normalizeTransport\<close>
  here and in the code can differ. The general theorems of this file that go through
  \<open>TransportType\<close> do not look at what it computes and hold for every such function;
  the concrete inputs they are run on have ASCII type strings.
\<close>

definition ToLower_byte :: "char \<Rightarrow> char" where
  "ToLower_byte c =
     (if 65 \<le> (of_char c :: nat) \<and> (of_char c :: nat) \<le> 90
      then char_of ((of_char c :: nat) + 32) else c)"

definition ToLower :: "string \<Rightarrow> string" where
  "ToLower s = map ToLower_byte s"

definition isSpace :: "char \<Rightarrow> bool" where
  "isSpace c = ((of_char c :: nat) \<in> {9, 10, 11, 12, 13, 32})"

definition TrimSpace :: "string \<Rightarrow> string" where
  "TrimSpace s = rev (dropWhile isSpace (rev (dropWhile isSpace s)))"

definition normalizeTransport :: "string \<Rightarrow> string" where
  "normalizeTransport t0 =
     (let t = ToLower (TrimSpace t0)
      in if t = ''stdio'' then ''stdio''
         else if t = ''sse'' then ''sse''
         else if t = ''http'' \<or> t = ''streamable-http'' \<or> t = ''streamablehttp'' then ''http''
         else if t = ''docker'' \<or> t = ''container'' then ''docker''
         else t)"

definition TransportType :: "ServerConfig \<Rightarrow> string" where
  "TransportType s =
     (if Type s \<noteq> '''' then normalizeTransport (Type s)
      else if Transport s \<noteq> '''' then normalizeTransport (Transport s)
      else if Image s \<noteq> '''' then ''docker''
      else if URL s \<noteq> '''' then ''http''
      else if Command s \<noteq> '''' then ''stdio''
      else ''stdio'')"

subsection \<open>Environment variable expansion\<close>

text \<open>
  \<^verbatim>\<open>os.ExpandEnv\<close> of the Go standard library, which \<^verbatim>\<open>processEnvVars\<close> calls on each
  field: \<^verbatim>\<open>os.Expand(s, os.Getenv)\<close>. After a \<^verbatim>\<open>$\<close> that is not the last byte,
  \<^verbatim>\<open>getShellName\<close> reads a name (in braces, one special character, or a run of letters,
  digits and underscores) and says how many bytes it took; an empty name with bytes taken
  is bad syntax and is eaten, an empty name with none leaves the \<^verbatim>\<open>$\<close> in place. The
  process environment is a map; \<^verbatim>\<open>os.Getenv\<close> gives the empty string for an unset name.
\<close>

definition isShellSpecialVar :: "char \<Rightarrow> bool" where
  "isShellSpecialVar c = (c \<in> set ''*#$@!?-0123456789'')"

definition isAlphaNum :: "char \<Rightarrow> bool" where
  "isAlphaNum c =
     (let n = (of_char c :: nat)
      in c = CHR ''_'' \<or> (48 \<le> n \<and> n \<le> 57) \<or> (97 \<le> n \<and> n \<le> 122) \<or> (65 \<le> n \<and> n \<le> 90))"

text \<open>\<open>getShellName\<close> is only called on a non-empty string.\<close>

definition getShellName :: "string \<Rightarrow> string \<times> nat" where
  "getShellName s =
     (case s of
        [] \<Rightarrow> ([], 0)
      | c # rest \<Rightarrow>
          if c = CHR ''{'' then
            (case rest of
               c1 # c2 # _ \<Rightarrow>
                 if isShellSpecialVar c1 \<and> c2 = CHR ''}'' then ([c1], 3)
                 else (let body = takeWhile (\<lambda>x. x \<noteq> CHR ''}'') rest
                       in if length body = length rest then ([], 1)
                          else if body = [] then ([], 2)
                          else (body, length body + 2))
             | _ \<Rightarrow>
                 (let body = takeWhile (\<lambda>x. x \<noteq> CHR ''}'') rest
                  in if length body = length rest then ([], 1)
                     else if body = [] then ([], 2)
                     else (body, length body + 2)))
          else if isShellSpecialVar c then ([c], 1)
          else (takeWhile isAlphaNum s, length (takeWhile isAlphaNum s)))"

function Expand :: "(string \<Rightarrow> string) \<Rightarrow> string \<Rightarrow> string" where
  "Expand mapping [] = []"
| "Expand mapping (c # s) =
     (if c = CHR ''$'' \<and> s \<noteq> [] then
        (let (name, w) = getShellName s
         in (if name = [] \<and> w > 0 then []
             else if name = [] then [c]
             else mapping name) @ Expand mapping (drop w s))
      else c # Expand mapping s)"
  by pat_completeness auto
termination
  by (relation "measure (\<lambda>(mapping, s). length s)") auto

definition Getenv :: "(string \<Rightarrow> string option) \<Rightarrow> string \<Rightarrow> string" where
  "Getenv env key = (case env key of None \<Rightarrow> '''' | Some v \<Rightarrow> v)"

definition ExpandEnv :: "(string \<Rightarrow> string option) \<Rightarrow> string \<Rightarrow> string" where
  "ExpandEnv env s = Expand (Getenv env) s"

subsection \<open>Loading, validation, enabled servers\<close>

definition expand_volumes ::
  "(string \<Rightarrow> string option) \<Rightarrow> (string \<times> string) list \<Rightarrow> (string \<times> string) list" where
  "expand_volumes env vols =
     fold (\<lambda>(k, v) newVolumes. AList.update (ExpandEnv env k) (ExpandEnv env v) newVolumes) vols []"

text \<open>The body of the loop of \<^verbatim>\<open>processEnvVars\<close>, for one server entry.\<close>

definition expand_server :: "(string \<Rightarrow> string option) \<Rightarrow> ServerConfig \<Rightarrow> ServerConfig" where
  "expand_server env srv =
     srv\<lparr>Env := map (\<lambda>(k, v). (k, ExpandEnv env v)) (Env srv),
         Command := (if Command srv \<noteq> '''' then ExpandEnv env (Command srv) else Command srv),
         Args := map (ExpandEnv env) (Args srv),
         URL := (if URL srv \<noteq> '''' then ExpandEnv env (URL srv) else URL srv),
         Headers := map (\<lambda>(k, v). (k, ExpandEnv env v)) (Headers srv),
         Image := (if Image srv \<noteq> '''' then ExpandEnv env (Image srv) else Image srv),
         Volumes := expand_volumes env (Volumes srv)\<rparr>"

definition processEnvVars :: "(string \<Rightarrow> string option) \<Rightarrow> Config \<Rightarrow> Config" where
  "processEnvVars env c =
     c\<lparr>MCPServers := map (\<lambda>(name, srv). (name, expand_server env srv)) (MCPServers c)\<rparr>"

datatype config_error =
    ReadFileFailed string
  | ParseFailed string
  | CommandRequired string
  | UrlRequired string string
  | ImageRequired string
  | UnsupportedTransport string string

text \<open>
  \<^verbatim>\<open>Load\<close> reads the file and parses it as JSON, then expands variables. The file
  system and the JSON parser are outside the program: their joint outcome, an error or
  the parsed configuration, is the argument \<open>parsed\<close>.
\<close>

definition Load ::
  "(string \<Rightarrow> string option) \<Rightarrow> config_error + Config \<Rightarrow> config_error + Config" where
  "Load env parsed =
     (case parsed of
        Inl e \<Rightarrow> Inl e
      | Inr cfg \<Rightarrow> Inr (processEnvVars env cfg))"

definition validate_server :: "string \<Rightarrow> ServerConfig \<Rightarrow> config_error option" where
  "validate_server name srv =
     (if Disabled srv then None
      else (let transport = TransportType srv
            in if transport = ''stdio'' then
                 (if Command srv = '''' then Some (CommandRequired name) else None)
               else if transport = ''sse'' then
                 (if URL srv = '''' then Some (UrlRequired name ''sse'') else None)
               else if transport = ''http'' then
                 (if URL srv = '''' then Some (UrlRequired name ''http'') else None)
               else if transport = ''docker'' then
                 (if Image srv = '''' then Some (ImageRequired name) else None)
               else Some (UnsupportedTransport name transport)))"

text \<open>\<^verbatim>\<open>Validate\<close> returns at the first entry that fails, in the iteration order.\<close>

fun validate_all :: "(string \<times> ServerConfig) list \<Rightarrow> config_error option" where
  "validate_all [] = None"
| "validate_all ((name, srv) # rest) =
     (case validate_server name srv of
        Some e \<Rightarrow> Some e
      | None \<Rightarrow> validate_all rest)"

definition Validate :: "Config \<Rightarrow> config_error option" where
  "Validate c = validate_all (MCPServers c)"

definition GetEnabledServers :: "Config \<Rightarrow> (string \<times> ServerConfig) list" where
  "GetEnabledServers c = filter (\<lambda>(name, srv). \<not> Disabled srv) (MCPServers c)"

section \<open>Plugin manager (package plugin)\<close>

text \<open>
  The manager talks to its servers through the MCP SDK: \<^verbatim>\<open>client.Connect\<close>,
  \<^verbatim>\<open>session.ListTools\<close>, \<^verbatim>\<open>session.CallTool\<close> and \<^verbatim>\<open>session.Close\<close>. What those calls
  answer is decided by the peer, so the model takes their answers from a record \<open>world\<close>;
  every theorem holds for every such record. A session is a handle.
\<close>

type_synonym sdk_session = nat

record mcp_Tool =
  mcpName :: string
  mcpDescription :: string
  mcpInputSchema :: string

record CallToolResult =
  Content :: string
  IsError :: bool

datatype transport =
    CommandTransport string "string list" "string list"
  | StreamableClientTransport string
  | SSEClientTransport string

datatype error =
    AlreadyStarted string
  | UnsupportedTransportType string
  | FailedToConnect string
  | FailedToListTools string
  | ServerNotFound string
  | FailedToParseArguments
  | ToolCallFailed string
  | FailedToMarshalResult string
  | ToolReturnedError
  | FailedToClose string string
  | FailedToStopForReload error

record world =
  Connect :: "transport \<Rightarrow> string + sdk_session"
  ListTools :: "sdk_session \<Rightarrow> string + mcp_Tool list"
  CallTool :: "sdk_session \<Rightarrow> string \<Rightarrow> string \<Rightarrow> string + CallToolResult"
  Close :: "sdk_session \<Rightarrow> string option"
  UnmarshalArguments :: "string \<Rightarrow> string option"
  MarshalResult :: "CallToolResult \<Rightarrow> string + string"

record MCPServer =
  srv_name :: string
  session :: sdk_session

text \<open>
  \<open>calls\<close> is a log the model adds: the calls the manager makes on the registry and the
  session closes it asks for, oldest first. The order of effects is read from it.
\<close>

datatype call =
    RegRegisterTools string
  | RegUnregisterTools string
  | SessionClose sdk_session

record Manager =
  reg :: Registry
  servers :: "(string \<times> MCPServer) list"
  calls :: "call list"

definition NewManager :: "Registry \<Rightarrow> Manager" where
  "NewManager r = \<lparr>reg = r, servers = [], calls = []\<rparr>"

definition envMapToSlice :: "(string \<times> string) list \<Rightarrow> string list" where
  "envMapToSlice m = map (\<lambda>(k, v). k @ ''='' @ v) m"

definition buildDockerArgs :: "ServerConfig \<Rightarrow> string list" where
  "buildDockerArgs cfg =
     [''run'', ''--rm'', ''-i'']
     @ concat (map (\<lambda>(k, v). [''-e'', k @ ''='' @ v]) (Env cfg))
     @ concat (map (\<lambda>(host, container). [''-v'', host @ '':'' @ container]) (Volumes cfg))
     @ (if Network cfg \<noteq> '''' then [''--network'', Network cfg] else [])
     @ [Image cfg]
     @ Args cfg"

text \<open>The transport selection switch of \<^verbatim>\<open>StartServer\<close>.\<close>

definition select_transport :: "ServerConfig \<Rightarrow> error + transport" where
  "select_transport cfg =
     (let ty = TransportType cfg
      in if ty = ''stdio'' then Inr (CommandTransport (Command cfg) (Args cfg) (envMapToSlice (Env cfg)))
         else if ty = ''docker'' then Inr (CommandTransport ''docker'' (buildDockerArgs cfg) [])
         else if ty = ''http'' then Inr (StreamableClientTransport (URL cfg))
         else if ty = ''sse'' then Inr (SSEClientTransport (URL cfg))
         else Inl (UnsupportedTransportType ty))"

text \<open>The projection of the discovered tools into registry tools.\<close>

definition registryTools :: "string \<Rightarrow> mcp_Tool list \<Rightarrow> Tool list" where
  "registryTools name ts =
     map (\<lambda>tool. \<lparr>ID = mcpName tool, Name = mcpName tool,
                   Description = mcpDescription tool, PluginID = name\<rparr>) ts"

definition StartServer :: "world \<Rightarrow> string \<Rightarrow> ServerConfig \<Rightarrow> Manager \<Rightarrow> error option \<times> Manager" where
  "StartServer w name cfg m =
     (if map_of (servers m) name \<noteq> None then (Some (AlreadyStarted name), m)
      else
        (case select_transport cfg of
           Inl e \<Rightarrow> (Some e, m)
         | Inr tr \<Rightarrow>
             (case Connect w tr of
                Inl e \<Rightarrow> (Some (FailedToConnect e), m)
              | Inr s \<Rightarrow>
                  (case ListTools w s of
                     Inl e \<Rightarrow> (Some (FailedToListTools e), m\<lparr>calls := calls m @ [SessionClose s]\<rparr>)
                   | Inr ts \<Rightarrow>
                       (None,
                        m\<lparr>reg := RegisterTools name (registryTools name ts) (reg m),
                          servers := AList.update name \<lparr>srv_name = name, session = s\<rparr> (servers m),
                          calls := calls m @ [RegRegisterTools name]\<rparr>)))))"

definition Execute :: "world \<Rightarrow> string \<Rightarrow> string \<Rightarrow> string \<Rightarrow> Manager \<Rightarrow> error + string" where
  "Execute w pluginID toolName arguments m =
     (case map_of (servers m) pluginID of
        None \<Rightarrow> Inl (ServerNotFound pluginID)
      | Some server \<Rightarrow>
          (case (if arguments \<noteq> '''' then UnmarshalArguments w arguments else Some '''') of
             None \<Rightarrow> Inl FailedToParseArguments
           | Some args \<Rightarrow>
               (case CallTool w (session server) toolName args of
                  Inl e \<Rightarrow> Inl (ToolCallFailed e)
                | Inr result \<Rightarrow>
                    (case MarshalResult w result of
                       Inl merr \<Rightarrow> Inl (FailedToMarshalResult merr)
                     | Inr respBytes \<Rightarrow>
                         if IsError result then Inl ToolReturnedError else Inr respBytes))))"

definition StopServer :: "world \<Rightarrow> string \<Rightarrow> Manager \<Rightarrow> error option \<times> Manager" where
  "StopServer w name m =
     (case map_of (servers m) name of
        None \<Rightarrow> (Some (ServerNotFound name), m)
      | Some server \<Rightarrow>
          (let m1 = m\<lparr>servers := AList.delete name (servers m)\<rparr>;
               m2 = m1\<lparr>reg := UnregisterTools name (reg m1),
                       calls := calls m1 @ [RegUnregisterTools name]\<rparr>;
               m3 = m2\<lparr>calls := calls m2 @ [SessionClose (session server)]\<rparr>
           in case Close w (session server) of
                Some e \<Rightarrow> (Some (FailedToClose name e), m3)
              | None \<Rightarrow> (None, m3)))"

definition GetServer :: "string \<Rightarrow> Manager \<Rightarrow> MCPServer option" where
  "GetServer name m = map_of (servers m) name"

definition ReloadServer :: "world \<Rightarrow> string \<Rightarrow> ServerConfig \<Rightarrow> Manager \<Rightarrow> error option \<times> Manager" where
  "ReloadServer w name cfg m =
     (case GetServer name m of
        Some _ \<Rightarrow>
          (case StopServer w name m of
             (Some e, m') \<Rightarrow> (Some (FailedToStopForReload e), m')
           | (None, m') \<Rightarrow> StartServer w name cfg m')
      | None \<Rightarrow> StartServer w name cfg m)"

definition ListServers :: "Manager \<Rightarrow> string list" where
  "ListServers m = map fst (servers m)"

subsection \<open>Test inputs for the manager\<close>

text \<open>A peer that accepts every connection (session 7) and offers one tool, \<open>echo\<close>.\<close>

definition echo_world :: world where
  "echo_world =
     \<lparr>Connect = (\<lambda>_. Inr 7),
      ListTools = (\<lambda>_. Inr [\<lparr>mcpName = ''echo'', mcpDescription = '''', mcpInputSchema = ''{}''\<rparr>]),
      CallTool = (\<lambda>_ _ args. Inr \<lparr>Content = args, IsError = False\<rparr>),
      Close = (\<lambda>_. None),
      UnmarshalArguments = (\<lambda>a. Some a),
      MarshalResult = (\<lambda>r. Inr (Content r))\<rparr>"

definition empty_server :: ServerConfig where
  "empty_server =
     \<lparr>Disabled = False, Timeout = 0, Env = [], Type = '''', Command = '''', Args = [],
      URL = '''', Headers = [], Image = '''', Volumes = [], Network = '''', Transport = ''''\<rparr>"

definition echo_cfg :: ServerConfig where
  "echo_cfg = empty_server\<lparr>Command := ''echo-bin''\<rparr>"

definition manager_a :: Manager where
  "manager_a = snd (StartServer echo_world ''a'' echo_cfg (NewManager Registry_New))"

definition manager_ab :: Manager where
  "manager_ab = snd (StartServer echo_world ''b'' echo_cfg manager_a)"

lemma fold_store_origin:
  assumes "map_of (fold (store_tool p) ts al) k = Some t'"
    and "k \<in> ID ` set ts"
  shows "\<exists>t \<in> set ts. ID t = k \<and> t' = t\<lparr>PluginID := p\<rparr>"
proof -
  let ?new = "rev (map (\<lambda>t. (ID t, t\<lparr>PluginID := p\<rparr>)) ts)"
  have "k \<in> fst ` set ?new" using assms(2) by force
  then have "map_of ?new k \<noteq> None"
    by (simp add: map_of_eq_None_iff)
  then obtain v where v: "map_of ?new k = Some v" by blast
  then have "(map_of al ++ map_of ?new) k = Some v"
    by (simp add: map_add_Some_iff)
  with assms(1) have "v = t'" by (simp add: map_of_fold_store)
  with v have "(k, t') \<in> set ?new" by (auto dest: map_of_SomeD)
  then show ?thesis by auto
qed

lemma registered_discovered:
  assumes "tool \<in> set ts"
  shows "\<exists>t. map_of (tools (RegisterTools name (registryTools name ts) r)) (mcpName tool) = Some t
           \<and> ID t = mcpName tool \<and> Name t = mcpName tool \<and> PluginID t = name"
proof -
  let ?rts = "registryTools name ts"
  let ?al = "fold (store_tool name) ?rts (tools r)"
  have in_ids: "mcpName tool \<in> ID ` set ?rts"
    using assms by (force simp: registryTools_def)
  then have "mcpName tool \<in> fst ` set ?al" by (simp add: fold_store_keys)
  then obtain t where t: "map_of ?al (mcpName tool) = Some t"
    by (metis map_of_eq_None_iff not_Some_eq)
  from fold_store_origin [OF t in_ids]
  obtain t0 where "t0 \<in> set ?rts" "ID t0 = mcpName tool" "t = t0\<lparr>PluginID := name\<rparr>" by blast
  then have "ID t = mcpName tool \<and> Name t = mcpName tool \<and> PluginID t = name"
    by (auto simp: registryTools_def)
  with t show ?thesis
    by (simp add: RegisterTools_def tools_broadcastLocked)
qed

subsection \<open>Starting a server\<close>

text \<open>
  Claim C1, as the code has it. When \<open>StartServer name cfg\<close> succeeds, every tool the
  session reported is in the registry under an id equal to its server-local name (the
  server name and the separator are not part of the id), with that name as display name
  and \<open>PluginID = name\<close>; the session is stored under \<open>name\<close>.
\<close>

theorem StartServer_registers_under_tool_name:
  assumes "StartServer w name cfg m = (None, m')"
  shows "\<exists>tr s ts. select_transport cfg = Inr tr \<and> Connect w tr = Inr s \<and> ListTools w s = Inr ts
           \<and> map_of (servers m') name = Some \<lparr>srv_name = name, session = s\<rparr>
           \<and> (\<forall>tool \<in> set ts. \<exists>t. map_of (tools (reg m')) (mcpName tool) = Some t
                 \<and> ID t = mcpName tool \<and> Name t = mcpName tool \<and> PluginID t = name)"
proof -
  from assms obtain tr where tr: "select_transport cfg = Inr tr"
    by (cases "select_transport cfg") (auto simp: StartServer_def split: if_splits)
  from assms tr obtain s where s: "Connect w tr = Inr s"
    by (cases "Connect w tr") (auto simp: StartServer_def split: if_splits)
  from assms tr s obtain ts where ts: "ListTools w s = Inr ts"
    by (cases "ListTools w s") (auto simp: StartServer_def split: if_splits)
  from assms tr s ts have m': "m' = m\<lparr>reg := RegisterTools name (registryTools name ts) (reg m),
        servers := AList.update name \<lparr>srv_name = name, session = s\<rparr> (servers m),
        calls := calls m @ [RegRegisterTools name]\<rparr>"
    by (auto simp: StartServer_def split: if_splits)
  have "map_of (servers m') name = Some \<lparr>srv_name = name, session = s\<rparr>"
    by (simp add: m' update_conv')
  moreover have "\<forall>tool \<in> set ts. \<exists>t. map_of (tools (reg m')) (mcpName tool) = Some t
                 \<and> ID t = mcpName tool \<and> Name t = mcpName tool \<and> PluginID t = name"
    using registered_discovered [of _ ts name "reg m"] by (simp add: m')
  ultimately show ?thesis using tr s ts by blast
qed

lemma manager_a_simps:
  "StartServer echo_world ''a'' echo_cfg (NewManager Registry_New) = (None, manager_a)"
  "tools (reg manager_a) = [(''echo'', \<lparr>ID = ''echo'', Name = ''echo'', Description = '''', PluginID = ''a''\<rparr>)]"
  "map fst (servers manager_a) = [''a'']"
  by (simp_all add: manager_a_def StartServer_def NewManager_def Registry_New_def echo_world_def
      echo_cfg_def empty_server_def select_transport_def TransportType_def Registry_List_def
      RegisterTools_def broadcastLocked_def registryTools_def store_tool_def sliceLocked_def)

lemma manager_ab_simps:
  "StartServer echo_world ''b'' echo_cfg manager_a = (None, manager_ab)"
  "tools (reg manager_ab) = [(''echo'', \<lparr>ID = ''echo'', Name = ''echo'', Description = '''', PluginID = ''b''\<rparr>)]"
  "map fst (servers manager_ab) = [''a'', ''b'']"
  by (simp_all add: manager_ab_def manager_a_def StartServer_def NewManager_def Registry_New_def echo_world_def
      echo_cfg_def empty_server_def select_transport_def TransportType_def Registry_List_def
      RegisterTools_def broadcastLocked_def registryTools_def store_tool_def sliceLocked_def)

theorem StartServer_registers_under_tool_name_witness:
  "\<exists>t. map_of (tools (reg manager_a)) ''echo'' = Some t
        \<and> ID t = ''echo'' \<and> Name t = ''echo'' \<and> PluginID t = ''a''"
  using StartServer_registers_under_tool_name [OF manager_a_simps(1)]
  by (simp add: echo_world_def)

text \<open>
  The claim as the spec words it fails: server \<open>a\<close> with the tool \<open>echo\<close> registers
  the id \<open>echo\<close>, and nothing under \<open>a:echo\<close>. The ids are not unique across
  servers either: starting \<open>b\<close> with a tool of the same name replaces the entry of
  \<open>a\<close>, and the registry is left with one tool, owned by \<open>b\<close>, while both servers run.
\<close>

theorem StartServer_namespaced_id_counterexample:
  "fst (StartServer echo_world ''a'' echo_cfg (NewManager Registry_New)) = None
   \<and> map ID (Registry_List (reg manager_a)) = [''echo'']
   \<and> ''echo'' \<noteq> ''a'' @ '':'' @ ''echo''
   \<and> map_of (tools (reg manager_a)) (''a'' @ '':'' @ ''echo'') = None
   \<and> fst (StartServer echo_world ''b'' echo_cfg manager_a) = None
   \<and> ListServers manager_ab = [''a'', ''b'']
   \<and> map PluginID (Registry_List (reg manager_ab)) = [''b'']"
  by (simp add: manager_a_simps manager_ab_simps ListServers_def Registry_List_def)

lemma UnregisterTools_no_owner:
  "t \<in> set (Registry_List (UnregisterTools name r)) \<Longrightarrow> PluginID t \<noteq> name"
  by (auto simp: UnregisterTools_def Registry_List_def tools_broadcastLocked)

subsection \<open>Stopping a server\<close>

text \<open>
  Claim C6. \<open>StopServer name\<close> on a name with no session returns the not-found error and
  changes nothing. When it returns without error, it has called \<open>UnregisterTools name\<close>
  on the registry and then closed the session, in that order; no tool owned by \<open>name\<close>
  is left in the registry; and \<open>Execute\<close> on \<open>name\<close> in the resulting state fails
  with the not-found error, whatever the tool and the arguments.
\<close>

theorem StopServer_unregisters_then_closes:
  "(map_of (servers m) name = None \<longrightarrow> StopServer w name m = (Some (ServerNotFound name), m))
   \<and> (StopServer w name m = (None, m') \<longrightarrow>
        (\<forall>t \<in> set (Registry_List (reg m')). PluginID t \<noteq> name)
        \<and> (\<forall>toolName arguments. Execute w name toolName arguments m' = Inl (ServerNotFound name))
        \<and> (\<exists>s. map_of (servers m) name = Some s
               \<and> calls m' = calls m @ [RegUnregisterTools name, SessionClose (session s)]))"
proof (rule conjI; rule impI)
  assume "map_of (servers m) name = None"
  then show "StopServer w name m = (Some (ServerNotFound name), m)"
    by (simp add: StopServer_def)
next
  assume stop: "StopServer w name m = (None, m')"
  then obtain s where s: "map_of (servers m) name = Some s"
    by (cases "map_of (servers m) name") (auto simp: StopServer_def)
  from stop s have m': "m' = m\<lparr>servers := AList.delete name (servers m),
        reg := UnregisterTools name (reg m),
        calls := calls m @ [RegUnregisterTools name, SessionClose (session s)]\<rparr>"
    by (auto simp: StopServer_def Let_def split: option.splits)
  show "(\<forall>t \<in> set (Registry_List (reg m')). PluginID t \<noteq> name)
        \<and> (\<forall>toolName arguments. Execute w name toolName arguments m' = Inl (ServerNotFound name))
        \<and> (\<exists>s. map_of (servers m) name = Some s
               \<and> calls m' = calls m @ [RegUnregisterTools name, SessionClose (session s)])"
  proof (intro conjI ballI allI)
    fix t assume "t \<in> set (Registry_List (reg m'))"
    then show "PluginID t \<noteq> name"
      using UnregisterTools_no_owner [of t name "reg m"] by (simp add: m')
  next
    fix toolName arguments
    show "Execute w name toolName arguments m' = Inl (ServerNotFound name)"
      by (simp add: Execute_def m' delete_conv')
  next
    show "\<exists>s. map_of (servers m) name = Some s
               \<and> calls m' = calls m @ [RegUnregisterTools name, SessionClose (session s)]"
      using s by (simp add: m')
  qed
qed

lemma stop_a:
  "StopServer echo_world ''a'' manager_a
     = (None, \<lparr>reg = Registry_New, servers = [],
               calls = [RegRegisterTools ''a'', RegUnregisterTools ''a'', SessionClose 7]\<rparr>)"
  by (simp add: StopServer_def manager_a_def StartServer_def NewManager_def Registry_New_def echo_world_def
      echo_cfg_def empty_server_def select_transport_def TransportType_def 
      RegisterTools_def UnregisterTools_def broadcastLocked_def registryTools_def store_tool_def sliceLocked_def)

theorem StopServer_unregisters_then_closes_witness:
  "StopServer echo_world ''b'' manager_a = (Some (ServerNotFound ''b''), manager_a)
   \<and> Registry_List (reg (snd (StopServer echo_world ''a'' manager_a))) = []
   \<and> Execute echo_world ''a'' ''echo'' ''{}'' (snd (StopServer echo_world ''a'' manager_a))
        = Inl (ServerNotFound ''a'')
   \<and> calls (snd (StopServer echo_world ''a'' manager_a))
        = calls manager_a @ [RegUnregisterTools ''a'', SessionClose 7]"
  using StopServer_unregisters_then_closes [of manager_a "''b''" echo_world]
    StopServer_unregisters_then_closes [of manager_a "''a''" echo_world
      "\<lparr>reg = Registry_New, servers = [],
        calls = [RegRegisterTools ''a'', RegUnregisterTools ''a'', SessionClose 7]\<rparr>"]
  by (simp add: stop_a manager_a_simps Registry_List_def Registry_New_def)
     (simp add: manager_a_def StartServer_def NewManager_def echo_world_def echo_cfg_def
       empty_server_def select_transport_def TransportType_def)

section \<open>Configuration watcher (package watcher)\<close>

subsection \<open>Comparing two server entries\<close>

text \<open>
  \<^verbatim>\<open>configEqual\<close> compares the bytes \<^verbatim>\<open>json.Marshal\<close> writes for the two entries.
  \<open>Marshal\<close> is the JSON document of an entry as a value: the fields in declaration
  order, a field tagged \<^verbatim>\<open>omitempty\<close> left out when it is false, zero, the empty string
  or of length zero, and the keys of a map in sorted order. Marshalling an entry cannot
  fail (it holds only booleans, integers, strings, string slices and string maps), so
  the two error returns of \<^verbatim>\<open>configEqual\<close> are never taken. Equal documents are written
  as equal bytes. The converse fails on strings that are not valid UTF-8, which
  \<^verbatim>\<open>json.Marshal\<close> writes with U+FFFD in place of the bad bytes: two entries that differ
  only there are equal for the code and different for \<open>configEqual\<close> here. The only
  fact about \<open>configEqual\<close> used below is that an entry equals itself.
\<close>

datatype json =
    JBool bool
  | JNum int
  | JStr string
  | JArr "json list"
  | JObj "(string \<times> json) list"

definition marshal_map :: "(string \<times> string) list \<Rightarrow> json" where
  "marshal_map m = JObj (map (\<lambda>(k, v). (k, JStr v)) (sort_key fst m))"

definition omitempty :: "bool \<Rightarrow> string \<Rightarrow> json \<Rightarrow> (string \<times> json) list" where
  "omitempty is_empty key v = (if is_empty then [] else [(key, v)])"

definition Marshal :: "ServerConfig \<Rightarrow> json" where
  "Marshal s = JObj
     (omitempty (\<not> Disabled s) ''disabled'' (JBool (Disabled s))
      @ omitempty (Timeout s = 0) ''timeout'' (JNum (Timeout s))
      @ omitempty (Env s = []) ''env'' (marshal_map (Env s))
      @ omitempty (Type s = '''') ''type'' (JStr (Type s))
      @ omitempty (Command s = '''') ''command'' (JStr (Command s))
      @ omitempty (Args s = []) ''args'' (JArr (map JStr (Args s)))
      @ omitempty (URL s = '''') ''url'' (JStr (URL s))
      @ omitempty (Headers s = []) ''headers'' (marshal_map (Headers s))
      @ omitempty (Image s = '''') ''image'' (JStr (Image s))
      @ omitempty (Volumes s = []) ''volumes'' (marshal_map (Volumes s))
      @ omitempty (Network s = '''') ''network'' (JStr (Network s))
      @ omitempty (Transport s = '''') ''transport'' (JStr (Transport s)))"

definition configEqual :: "ServerConfig \<Rightarrow> ServerConfig \<Rightarrow> bool" where
  "configEqual a b = (Marshal a = Marshal b)"

subsection \<open>The watcher\<close>

text \<open>
  The watcher holds the manager behind the interface \<^verbatim>\<open>PluginManager\<close>: three methods
  that may fail and may change the manager's state, of any type \<open>'m\<close>.
\<close>

record 'm PluginManager =
  pm_StartServer :: "string \<Rightarrow> ServerConfig \<Rightarrow> 'm \<Rightarrow> error option \<times> 'm"
  pm_StopServer :: "string \<Rightarrow> 'm \<Rightarrow> error option \<times> 'm"
  pm_ReloadServer :: "string \<Rightarrow> ServerConfig \<Rightarrow> 'm \<Rightarrow> error option \<times> 'm"

record 'm Watcher =
  lastConfig :: Config
  manager :: 'm

text \<open>The two loops of \<^verbatim>\<open>applyConfigChanges\<close>; an error of the manager is logged and the
  loop goes on.\<close>

definition remove_step ::
  "'m PluginManager \<Rightarrow> (string \<times> ServerConfig) list \<Rightarrow> string \<times> ServerConfig \<Rightarrow> 'm \<Rightarrow> 'm" where
  "remove_step pm newServers = (\<lambda>(name, _) m.
     if map_of newServers name = None then snd (pm_StopServer pm name m) else m)"

definition add_or_update_step ::
  "'m PluginManager \<Rightarrow> (string \<times> ServerConfig) list \<Rightarrow> string \<times> ServerConfig \<Rightarrow> 'm \<Rightarrow> 'm" where
  "add_or_update_step pm oldServers = (\<lambda>(name, newCfg) m.
     case map_of oldServers name of
       None \<Rightarrow> snd (pm_StartServer pm name newCfg m)
     | Some oldCfg \<Rightarrow>
         if \<not> configEqual oldCfg newCfg then snd (pm_ReloadServer pm name newCfg m) else m)"

definition applyConfigChanges :: "'m PluginManager \<Rightarrow> Config \<Rightarrow> 'm Watcher \<Rightarrow> 'm Watcher" where
  "applyConfigChanges pm newConfig w =
     (let oldServers = GetEnabledServers (lastConfig w);
          newServers = GetEnabledServers newConfig;
          m1 = fold (remove_step pm newServers) oldServers (manager w);
          m2 = fold (add_or_update_step pm oldServers) newServers m1
      in w\<lparr>manager := m2\<rparr>)"

definition handleConfigChange ::
  "'m PluginManager \<Rightarrow> (string \<Rightarrow> string option) \<Rightarrow> config_error + Config \<Rightarrow> 'm Watcher \<Rightarrow> 'm Watcher" where
  "handleConfigChange pm env parsed w =
     (case Load env parsed of
        Inl e \<Rightarrow> w
      | Inr newConfig \<Rightarrow>
          (case Validate newConfig of
             Some e \<Rightarrow> w
           | None \<Rightarrow> (applyConfigChanges pm newConfig w)\<lparr>lastConfig := newConfig\<rparr>))"

subsection \<open>Managers behind the interface\<close>

text \<open>The plugin manager of this program, a manager that records the calls it receives
  (the action list of a reconciliation), and a manager every call of which fails.\<close>

definition plugin_manager :: "world \<Rightarrow> Manager PluginManager" where
  "plugin_manager w =
     \<lparr>pm_StartServer = StartServer w, pm_StopServer = StopServer w, pm_ReloadServer = ReloadServer w\<rparr>"

datatype action =
    Stop string
  | Start string ServerConfig
  | Reload string ServerConfig

definition recording_manager :: "action list PluginManager" where
  "recording_manager =
     \<lparr>pm_StartServer = (\<lambda>name cfg log. (None, log @ [Start name cfg])),
      pm_StopServer = (\<lambda>name log. (None, log @ [Stop name])),
      pm_ReloadServer = (\<lambda>name cfg log. (None, log @ [Reload name cfg]))\<rparr>"

definition failing_manager :: "action list PluginManager" where
  "failing_manager =
     \<lparr>pm_StartServer = (\<lambda>name cfg log. (Some (FailedToConnect name), log @ [Start name cfg])),
      pm_StopServer = (\<lambda>name log. (Some (ServerNotFound name), log @ [Stop name])),
      pm_ReloadServer = (\<lambda>name cfg log. (Some (FailedToConnect name), log @ [Reload name cfg]))\<rparr>"

definition actions :: "Config \<Rightarrow> Config \<Rightarrow> action list" where
  "actions old new =
     manager (applyConfigChanges recording_manager new \<lparr>lastConfig = old, manager = []\<rparr>)"

text \<open>A Go map has one entry per key.\<close>

definition well_formed :: "Config \<Rightarrow> bool" where
  "well_formed c = distinct (map fst (MCPServers c))"

subsection \<open>Test inputs for the watcher\<close>

definition two_servers :: Config where
  "two_servers = \<lparr>MCPServers = [(''a'', echo_cfg), (''off'', echo_cfg\<lparr>Disabled := True\<rparr>)]\<rparr>"

definition three_servers :: Config where
  "three_servers = \<lparr>MCPServers = [(''a'', echo_cfg\<lparr>Args := [''-v'']\<rparr>), (''off'', echo_cfg), (''web'', empty_server\<lparr>URL := ''http://h/mcp''\<rparr>)]\<rparr>"

lemma fold_unchanged:
  "(\<And>x m. x \<in> set xs \<Longrightarrow> f x m = m) \<Longrightarrow> fold f xs m = m"
  by (induction xs arbitrary: m) simp_all

lemma configEqual_refl: "configEqual a a"
  by (simp add: configEqual_def)

lemma enabled_distinct:
  "well_formed c \<Longrightarrow> distinct (map fst (GetEnabledServers c))"
  by (simp add: well_formed_def GetEnabledServers_def distinct_map_filter)

lemma remove_step_same:
  "x \<in> set svs \<Longrightarrow> remove_step pm svs x m = m"
  by (cases x) (auto simp: remove_step_def map_of_eq_None_iff intro: rev_image_eqI)

lemma add_or_update_step_same:
  "distinct (map fst svs) \<Longrightarrow> x \<in> set svs \<Longrightarrow> add_or_update_step pm svs x m = m"
  by (cases x) (simp add: add_or_update_step_def configEqual_refl)

subsection \<open>Reconciling a configuration with itself\<close>

text \<open>
  Claim C7. Reconciling from a configuration to an identical one plans no action: the
  list of Stop, Start and Reload calls is empty, and for every manager behind the
  interface the watcher, manager state included, is left as it was, so no
  \<open>StopServer\<close>, \<open>StartServer\<close> or \<open>ReloadServer\<close> call is made.
\<close>

theorem reconcile_identical_config_no_actions:
  assumes "well_formed c"
  shows "actions c c = []
       \<and> (\<forall>pm w. lastConfig w = c \<longrightarrow> applyConfigChanges pm c (w :: 'm Watcher) = w)"
proof -
  have same: "applyConfigChanges pm c w = w" if "lastConfig w = c" for pm and w :: "'a Watcher"
  proof -
    let ?servers = "GetEnabledServers c"
    have d: "distinct (map fst ?servers)" using assms by (rule enabled_distinct)
    have "fold (remove_step pm ?servers) ?servers (manager w) = manager w"
      by (rule fold_unchanged) (rule remove_step_same)
    moreover have "fold (add_or_update_step pm ?servers) ?servers (manager w) = manager w"
      by (rule fold_unchanged) (rule add_or_update_step_same [OF d])
    ultimately show ?thesis
      using that by (simp add: applyConfigChanges_def Let_def)
  qed
  have "actions c c = []"
    unfolding actions_def by (simp add: same)
  moreover have "\<forall>pm w. lastConfig w = c \<longrightarrow> applyConfigChanges pm c (w :: 'm Watcher) = w"
    using same by blast
  ultimately show ?thesis by blast
qed

theorem reconcile_identical_config_no_actions_witness:
  "well_formed two_servers \<and> actions two_servers two_servers = []
   \<and> applyConfigChanges failing_manager two_servers \<lparr>lastConfig = two_servers, manager = []\<rparr>
       = \<lparr>lastConfig = two_servers, manager = []\<rparr>"
proof -
  have wf: "well_formed two_servers"
    by (simp add: well_formed_def two_servers_def)
  let ?w = "\<lparr>lastConfig = two_servers, manager = [] :: action list\<rparr>"
  note r = reconcile_identical_config_no_actions [OF wf]
  from r have a: "actions two_servers two_servers = []" by (rule conjunct1)
  from r have "lastConfig ?w = two_servers \<longrightarrow> applyConfigChanges failing_manager two_servers ?w = ?w"
    by blast
  then have "applyConfigChanges failing_manager two_servers ?w = ?w" by simp
  with wf a show ?thesis by simp
qed

definition bad_config :: Config where
  "bad_config = \<lparr>MCPServers = [(''bad'', empty_server)]\<rparr>"

definition watching_two :: "action list Watcher" where
  "watching_two = \<lparr>lastConfig = two_servers, manager = []\<rparr>"

lemma validate_examples:
  "Validate bad_config = Some (CommandRequired ''bad'')"
  "Validate three_servers = None"
  by (simp_all add: Validate_def bad_config_def three_servers_def validate_server_def
      TransportType_def empty_server_def echo_cfg_def)

lemma actions_two_three:
  "manager (applyConfigChanges failing_manager three_servers watching_two)
     = [Reload ''a'' (echo_cfg\<lparr>Args := [''-v'']\<rparr>), Start ''off'' echo_cfg,
        Start ''web'' (empty_server\<lparr>URL := ''http://h/mcp''\<rparr>)]"
  by (simp add: applyConfigChanges_def watching_two_def two_servers_def three_servers_def
      GetEnabledServers_def remove_step_def add_or_update_step_def failing_manager_def
      configEqual_def Marshal_def omitempty_def echo_cfg_def empty_server_def)

subsection \<open>A reload of the configuration file\<close>

text \<open>
  Claim C8. When loading (reading and parsing) or validating the new configuration
  fails, \<open>handleConfigChange\<close> leaves the watcher as it was: the last applied
  configuration and the manager with all its sessions. When both succeed, it applies
  the changes and commits the new configuration as the last applied one, whatever the
  manager's calls return: the statement holds for every manager, also one whose every
  call fails.
\<close>

theorem handleConfigChange_atomic_on_error_commits_on_success:
  "(\<forall>e. Load env parsed = Inl e \<longrightarrow> handleConfigChange pm env parsed w = w)
   \<and> (\<forall>c e. Load env parsed = Inr c \<and> Validate c = Some e \<longrightarrow> handleConfigChange pm env parsed w = w)
   \<and> (\<forall>c. Load env parsed = Inr c \<and> Validate c = None \<longrightarrow>
          handleConfigChange pm env parsed w = (applyConfigChanges pm c w)\<lparr>lastConfig := c\<rparr>
          \<and> lastConfig (handleConfigChange pm env parsed w) = c)"
  by (simp add: handleConfigChange_def)

theorem handleConfigChange_atomic_on_error_commits_on_success_witness:
  "handleConfigChange failing_manager Map.empty (Inl (ParseFailed ''unexpected end of JSON input'')) watching_two
     = watching_two
   \<and> handleConfigChange failing_manager Map.empty (Inr bad_config) watching_two = watching_two
   \<and> lastConfig (handleConfigChange failing_manager Map.empty (Inr three_servers) watching_two)
       = three_servers
   \<and> manager (handleConfigChange failing_manager Map.empty (Inr three_servers) watching_two)
       = [Reload ''a'' (echo_cfg\<lparr>Args := [''-v'']\<rparr>), Start ''off'' echo_cfg,
          Start ''web'' (empty_server\<lparr>URL := ''http://h/mcp''\<rparr>)]"
proof -
  have l1: "processEnvVars Map.empty bad_config = bad_config"
    by (simp add: processEnvVars_def bad_config_def expand_server_def empty_server_def
        expand_volumes_def)
  have l2: "processEnvVars Map.empty three_servers = three_servers"
    by (simp add: processEnvVars_def three_servers_def expand_server_def empty_server_def
        echo_cfg_def expand_volumes_def ExpandEnv_def)
  note t = handleConfigChange_atomic_on_error_commits_on_success
  show ?thesis
    using t [of Map.empty "Inl (ParseFailed ''unexpected end of JSON input'')" failing_manager watching_two]
      t [of Map.empty "Inr bad_config" failing_manager watching_two]
      t [of Map.empty "Inr three_servers" failing_manager watching_two]
    by (simp add: l1 l2 validate_examples actions_two_three Load_def)
qed

section \<open>Variable expansion at load time\<close>

text \<open>What \<^verbatim>\<open>processEnvVars\<close> does to one server entry, field by field.\<close>

definition expanded :: "(string \<Rightarrow> string option) \<Rightarrow> ServerConfig \<Rightarrow> ServerConfig \<Rightarrow> bool" where
  "expanded env srv srv' \<longleftrightarrow>
     Command srv' = ExpandEnv env (Command srv)
   \<and> Args srv' = map (ExpandEnv env) (Args srv)
   \<and> URL srv' = ExpandEnv env (URL srv)
   \<and> Headers srv' = map (\<lambda>(k, v). (k, ExpandEnv env v)) (Headers srv)
   \<and> Env srv' = map (\<lambda>(k, v). (k, ExpandEnv env v)) (Env srv)
   \<and> Image srv' = ExpandEnv env (Image srv)
   \<and> fst ` set (Volumes srv') = ExpandEnv env ` fst ` set (Volumes srv)
   \<and> set (Volumes srv') \<subseteq> (\<lambda>(k, v). (ExpandEnv env k, ExpandEnv env v)) ` set (Volumes srv)
   \<and> Network srv' = Network srv
   \<and> Type srv' = Type srv
   \<and> Transport srv' = Transport srv
   \<and> Disabled srv' = Disabled srv
   \<and> Timeout srv' = Timeout srv"

text \<open>A configuration that uses variables in every string field, the environment it is
  loaded in, and the configuration as loaded.\<close>

definition github_env :: "string \<Rightarrow> string option" where
  "github_env = [''GITHUB_TOKEN'' \<mapsto> ''abc123'', ''HOME'' \<mapsto> ''/root'', ''NET'' \<mapsto> ''mcp-network'',
                 ''KIND'' \<mapsto> ''docker'']"

definition github_cfg :: Config where
  "github_cfg = \<lparr>MCPServers = [(''github'',
      empty_server\<lparr>Command := ''${HOME}/bin/server'',
                   Args := [''--token=${GITHUB_TOKEN}'', ''${UNSET}x''],
                   Env := [(''TOK'', ''${GITHUB_TOKEN}'')],
                   URL := ''http://h/${KIND}'',
                   Headers := [(''Authorization'', ''Bearer ${GITHUB_TOKEN}'')],
                   Image := ''img:${GITHUB_TOKEN}'',
                   Volumes := [(''${HOME}/data'', ''/data'')],
                   Network := ''${NET}'',
                   Type := ''${KIND}''\<rparr>)]\<rparr>"

definition github_loaded :: Config where
  "github_loaded = \<lparr>MCPServers = [(''github'',
      empty_server\<lparr>Command := ''/root/bin/server'',
                   Args := [''--token=abc123'', ''x''],
                   Env := [(''TOK'', ''abc123'')],
                   URL := ''http://h/docker'',
                   Headers := [(''Authorization'', ''Bearer abc123'')],
                   Image := ''img:abc123'',
                   Volumes := [(''/root/data'', ''/data'')],
                   Network := ''${NET}'',
                   Type := ''${KIND}''\<rparr>)]\<rparr>"

lemma Expand_no_dollar:
  "CHR ''$'' \<notin> set pre \<Longrightarrow> Expand f (pre @ s) = pre @ Expand f s"
  by (induction pre) auto

lemma takeWhile_to_brace:
  "CHR ''}'' \<notin> set nm \<Longrightarrow> takeWhile (\<lambda>x. x \<noteq> CHR ''}'') (nm @ CHR ''}'' # post) = nm"
  by (induction nm) auto

lemma getShellName_braces:
  assumes "nm \<noteq> []" and "CHR ''}'' \<notin> set nm"
  shows "getShellName (CHR ''{'' # nm @ CHR ''}'' # post) = (nm, length nm + 2)"
proof (cases nm)
  case Nil
  with assms(1) show ?thesis by simp
next
  case (Cons c1 more)
  note tw = takeWhile_to_brace [OF assms(2), of post]
  show ?thesis
  proof (cases more)
    case Nil
    with Cons tw show ?thesis
      by (simp add: getShellName_def)
  next
    case (Cons c2 more')
    with \<open>nm = c1 # more\<close> assms(2) have "c2 \<noteq> CHR ''}''" by auto
    with Cons \<open>nm = c1 # more\<close> tw show ?thesis
      by (simp add: getShellName_def Let_def)
  qed
qed

lemma Expand_braced:
  assumes "nm \<noteq> []" and "CHR ''}'' \<notin> set nm"
  shows "Expand f (CHR ''$'' # CHR ''{'' # nm @ CHR ''}'' # post) = f nm @ Expand f post"
proof -
  have "Expand f (CHR ''$'' # (CHR ''{'' # nm @ CHR ''}'' # post))
      = f nm @ Expand f (drop (length nm + 2) (CHR ''{'' # nm @ CHR ''}'' # post))"
    using assms(1) by (subst Expand.simps(2)) (simp add: getShellName_braces [OF assms])
  then show ?thesis by simp
qed

lemma set_update_subset: "set (AList.update k v al) \<subseteq> insert (k, v) (set al)"
  by (induction al) auto

lemma expand_volumes_fold:
  "set (fold (\<lambda>(k, v) acc. AList.update (f k) (f v) acc) vols acc)
      \<subseteq> set acc \<union> (\<lambda>(k, v). (f k, f v)) ` set vols
   \<and> fst ` set (fold (\<lambda>(k, v) acc. AList.update (f k) (f v) acc) vols acc)
      = fst ` set acc \<union> f ` fst ` set vols"
proof (induction vols arbitrary: acc)
  case Nil
  show ?case by simp
next
  case (Cons kv vols)
  obtain k v where kv: "kv = (k, v)" by (cases kv)
  have s: "set (AList.update (f k) (f v) acc) \<subseteq> insert (f k, f v) (set acc)"
    by (rule set_update_subset)
  have d: "fst ` set (AList.update (f k) (f v) acc) = {f k} \<union> fst ` set acc"
    by (rule dom_update)
  from Cons.IH [of "AList.update (f k) (f v) acc"] s d show ?case
    unfolding kv by (simp del: AList.update.simps) blast
qed

lemma expand_volumes_entries:
  "set (expand_volumes env vols) \<subseteq> (\<lambda>(k, v). (ExpandEnv env k, ExpandEnv env v)) ` set vols"
  "fst ` set (expand_volumes env vols) = ExpandEnv env ` fst ` set vols"
  using expand_volumes_fold [of "ExpandEnv env" vols "[]"]
  by (simp_all add: expand_volumes_def)

lemma ExpandEnv_empty: "ExpandEnv env '''' = ''''"
  by (simp add: ExpandEnv_def)

lemma expand_server_expanded: "expanded env srv (expand_server env srv)"
  unfolding expanded_def
  by (simp add: expand_server_def ExpandEnv_empty expand_volumes_entries)

lemma github_processed: "processEnvVars github_env github_cfg = github_loaded"
  by (simp add: processEnvVars_def github_env_def github_cfg_def github_loaded_def expand_server_def
      empty_server_def expand_volumes_def ExpandEnv_def Getenv_def getShellName_def isShellSpecialVar_def
      isAlphaNum_def Let_def)

lemma github_expansions:
  "ExpandEnv github_env ''Bearer ${GITHUB_TOKEN}'' = ''Bearer abc123''"
  "ExpandEnv github_env ''${UNSET}x'' = ''x''"
  "ExpandEnv github_env ''${NET}'' = ''mcp-network''"
  "ExpandEnv github_env ''${KIND}'' = ''docker''"
  by (simp_all add: github_env_def ExpandEnv_def Getenv_def getShellName_def isShellSpecialVar_def
      isAlphaNum_def Let_def)

text \<open>
  Claim C9, as the code has it. Loading replaces the variable references in the command,
  each argument, the url, the header values, the env values, the image and the volume
  keys and values of every server entry by \<open>ExpandEnv\<close>; the network field, the type
  and transport fields, the disabled flag and the timeout are left as written. A
  reference \<open>${NAME}\<close> is replaced by the value of \<open>NAME\<close> in the environment, and by
  the empty string when \<open>NAME\<close> is unset.
\<close>

theorem processEnvVars_expands_fields:
  "list_all2 (\<lambda>(name, srv) (name', srv'). name' = name \<and> expanded env srv srv')
       (MCPServers c) (MCPServers (processEnvVars env c))
   \<and> (\<forall>pre nm post. CHR ''$'' \<notin> set pre \<and> nm \<noteq> [] \<and> CHR ''}'' \<notin> set nm \<longrightarrow>
         ExpandEnv env (pre @ ''${'' @ nm @ ''}'' @ post) = pre @ Getenv env nm @ ExpandEnv env post)
   \<and> (\<forall>nm. Getenv env nm = (case env nm of None \<Rightarrow> '''' | Some v \<Rightarrow> v))"
proof (intro conjI allI impI)
  show "list_all2 (\<lambda>(name, srv) (name', srv'). name' = name \<and> expanded env srv srv')
       (MCPServers c) (MCPServers (processEnvVars env c))"
    by (simp add: processEnvVars_def list_all2_map2 list.rel_refl_strong expand_server_expanded
        split: prod.splits)
next
  fix pre nm post
  assume "CHR ''$'' \<notin> set pre \<and> nm \<noteq> [] \<and> CHR ''}'' \<notin> set nm"
  then show "ExpandEnv env (pre @ ''${'' @ nm @ ''}'' @ post) = pre @ Getenv env nm @ ExpandEnv env post"
    unfolding ExpandEnv_def by (simp add: Expand_no_dollar Expand_braced del: Expand.simps)
next
  fix nm show "Getenv env nm = (case env nm of None \<Rightarrow> '''' | Some v \<Rightarrow> v)"
    by (simp add: Getenv_def)
qed

theorem processEnvVars_expands_fields_witness:
  "MCPServers (processEnvVars github_env github_cfg) = MCPServers github_loaded
   \<and> ExpandEnv github_env (''Bearer '' @ ''${'' @ ''GITHUB_TOKEN'' @ ''}'' @ '''') = ''Bearer abc123''
   \<and> ExpandEnv github_env (''${'' @ ''UNSET'' @ ''}'' @ ''x'') = ''x''"
  using processEnvVars_expands_fields [of github_env github_cfg]
  by (simp add: github_processed github_expansions)

text \<open>
  The claim as the spec words it fails on the network field (and on the type field):
  with \<open>NET\<close> and \<open>KIND\<close> set in the environment, the loaded entry still holds the
  references.
\<close>

theorem processEnvVars_network_counterexample:
  "map (Network \<circ> snd) (MCPServers (processEnvVars github_env github_cfg)) = [''${NET}'']
   \<and> map (Type \<circ> snd) (MCPServers (processEnvVars github_env github_cfg)) = [''${KIND}'']
   \<and> ExpandEnv github_env ''${NET}'' = ''mcp-network''
   \<and> ExpandEnv github_env ''${KIND}'' = ''docker''"
  by (simp add: github_processed github_expansions github_loaded_def empty_server_def)

section \<open>Transports (package transport)\<close>

subsection \<open>Envelopes, time, the caller's context\<close>

text \<open>
  A line on the wire is one JSON-RPC envelope. The transports never look inside a line,
  so a line is modelled by the envelope it carries: its correlation id (absent on a
  notification), its method and the rest of its text.
\<close>

datatype rpc_id = IdNum int | IdStr string

record envelope =
  env_id :: "rpc_id option"
  env_method :: string
  env_rest :: string

text \<open>
  Time is counted in nanoseconds, as \<^verbatim>\<open>time.Duration\<close> does. The caller's context
  holds the time left until its deadline, when it has one, and the time after which the
  caller cancels it, when it does, both counted from the moment the wait in question
  starts. \<open>Done_at\<close> is when \<^verbatim>\<open>ctx.Done()\<close> becomes ready; a deadline that has passed
  is ready at once.
\<close>

record call_context =
  ctx_deadline :: "int option"
  ctx_cancel :: "int option"

definition Background :: call_context where
  "Background = \<lparr>ctx_deadline = None, ctx_cancel = None\<rparr>"


definition Done_at :: "call_context \<Rightarrow> int option" where
  "Done_at ctx =
     (case (ctx_deadline ctx, ctx_cancel ctx) of
        (None, None) \<Rightarrow> None
      | (Some d, None) \<Rightarrow> Some (max 0 d)
      | (None, Some c) \<Rightarrow> Some (max 0 c)
      | (Some d, Some c) \<Rightarrow> Some (max 0 (min d c)))"


datatype transport_error =
    NotConnected
  | WriteFailed
  | ReadFailed string
  | RequestTimeout int
  | ContextDone
  | CreateRequestFailed
  | HTTPRequestFailed string
  | HTTPDeadlineExceeded
  | HTTPStatus nat
  | ReadResponseFailed



text \<open>
  A \<^verbatim>\<open>select\<close> takes the case that is ready first. A value that becomes ready \<open>a\<close>
  nanoseconds into a wait is taken when it is there strictly before the timer
  \<^verbatim>\<open>time.After(tmo)\<close> fires and strictly before the context is done; a timer with a
  duration that is not positive fires at once, and then no value is taken. When the
  timer and the context are ready at the same instant Go takes either; the model takes
  the one that comes first in the source, and the theorems below allow both.
\<close>

definition in_time :: "nat \<Rightarrow> int \<Rightarrow> call_context \<Rightarrow> bool" where
  "in_time a tmo ctx =
     (int a < max 0 tmo \<and> (case Done_at ctx of None \<Rightarrow> True | Some d \<Rightarrow> int a < d))"

section \<open>Line-oriented transports (stdio, docker)\<close>

text \<open>
  The reader holds what the peer is going to write on its standard output, in order:
  a full line, or a read error (end of file). The delay of an event is counted from
  the start of the wait of the request whose read receives it. An empty reader is a
  peer that stays silent.
\<close>

datatype read_event = Arrives nat envelope | Fails nat string

text \<open>
  \<^verbatim>\<open>StdioTransport\<close> and \<^verbatim>\<open>DockerTransport\<close> agree on the fields \<^verbatim>\<open>SendRequest\<close> uses;
  one record stands for both. \<open>stdin\<close> is what has been written to the child,
  \<open>stdin_broken\<close> says that a write fails.

  Every \<^verbatim>\<open>SendRequest\<close> starts a goroutine that reads one line, and does not stop it
  when the wait ends without a line: the goroutine stays blocked in \<^verbatim>\<open>ReadBytes\<close> and
  takes the next line when it comes, into a channel nobody reads. \<open>abandoned\<close> counts
  these reads in flight. Reads on the pipe are served in the order in which they
  were started, so with \<open>k\<close> reads in flight the first \<open>k\<close> lines go to them and are
  lost, and the read of a new request receives the line after those.
\<close>

record LineTransport =
  timeout :: int
  connected :: bool
  stdin :: "envelope list"
  stdin_broken :: bool
  reader :: "read_event list"
  abandoned :: nat

text \<open>The event the read of a new request receives with \<open>k\<close> reads in flight before
  it. After an end of file every read fails.\<close>

fun event_for :: "nat \<Rightarrow> read_event list \<Rightarrow> read_event option" where
  "event_for k [] = None"
| "event_for k (Fails a msg # rest) = Some (Fails a msg)"
| "event_for 0 (Arrives a line # rest) = Some (Arrives a line)"
| "event_for (Suc k) (Arrives a line # rest) = event_for k rest"

text \<open>The block \<^verbatim>\<open>// Apply timeout\<close>: the transport's timeout, overwritten by the time
  until the caller's deadline when the context has one.\<close>

definition apply_timeout :: "LineTransport \<Rightarrow> call_context \<Rightarrow> int" where
  "apply_timeout t ctx =
     (case ctx_deadline ctx of
        Some until_deadline \<Rightarrow> until_deadline
      | None \<Rightarrow> timeout t)"

text \<open>The \<^verbatim>\<open>select\<close> over the response channel, the error channel,
  \<^verbatim>\<open>time.After(timeout)\<close> and \<^verbatim>\<open>ctx.Done()\<close>.\<close>

definition select_timeout :: "int \<Rightarrow> call_context \<Rightarrow> transport_error" where
  "select_timeout tmo ctx =
     (case Done_at ctx of
        None \<Rightarrow> RequestTimeout tmo
      | Some d \<Rightarrow> if d < max 0 tmo then ContextDone else RequestTimeout tmo)"

definition select_response ::
  "int \<Rightarrow> call_context \<Rightarrow> read_event option \<Rightarrow> transport_error + envelope" where
  "select_response tmo ctx ev =
     (case ev of
        None \<Rightarrow> Inl (select_timeout tmo ctx)
      | Some (Arrives a line) \<Rightarrow>
          if in_time a tmo ctx then Inr line else Inl (select_timeout tmo ctx)
      | Some (Fails a msg) \<Rightarrow>
          if in_time a tmo ctx then Inl (ReadFailed msg) else Inl (select_timeout tmo ctx))"

text \<open>
  The transport after the wait. A line returned was the one after the lines of the
  reads in flight, which have all been served by then. A read error has ended every
  read, and the reader keeps failing. When the wait ended on the timer or the context,
  nothing has been taken off the reader yet and one more read is in flight.
\<close>

definition is_line :: "read_event \<Rightarrow> bool" where
  "is_line ev = (case ev of Arrives _ _ \<Rightarrow> True | Fails _ _ \<Rightarrow> False)"

definition after_wait :: "transport_error + envelope \<Rightarrow> LineTransport \<Rightarrow> LineTransport" where
  "after_wait res t =
     (case res of
        Inr line \<Rightarrow> t\<lparr>reader := drop (Suc (abandoned t)) (reader t), abandoned := 0\<rparr>
      | Inl (ReadFailed msg) \<Rightarrow> t\<lparr>reader := dropWhile is_line (reader t), abandoned := 0\<rparr>
      | Inl _ \<Rightarrow> t\<lparr>abandoned := Suc (abandoned t)\<rparr>)"

text \<open>
  \<^verbatim>\<open>SendRequest\<close>: refuse when not connected, write the request and a newline, start
  one read of one line, wait. The request is an envelope, which always marshals.
\<close>

definition StdioTransport_SendRequest ::
  "call_context \<Rightarrow> envelope \<Rightarrow> LineTransport \<Rightarrow> (transport_error + envelope) \<times> LineTransport" where
  "StdioTransport_SendRequest ctx req t =
     (if \<not> connected t then (Inl NotConnected, t)
      else if stdin_broken t then (Inl WriteFailed, t)
      else
        (let t1 = t\<lparr>stdin := stdin t @ [req]\<rparr>;
             tmo = apply_timeout t1 ctx;
             res = select_response tmo ctx (event_for (abandoned t1) (reader t1))
         in (res, after_wait res t1)))"


subsection \<open>Test inputs for the line transports\<close>

definition request :: "int \<Rightarrow> envelope" where
  "request n = \<lparr>env_id = Some (IdNum n), env_method = ''tools/call'', env_rest = ''{}''\<rparr>"

definition response :: "int \<Rightarrow> envelope" where
  "response n = \<lparr>env_id = Some (IdNum n), env_method = '''', env_rest = ''result''\<rparr>"


definition seconds :: "int \<Rightarrow> int" where
  "seconds n = n * 1000000000"



text \<open>A peer that never writes.\<close>

definition silent_peer :: LineTransport where
  "silent_peer =
     \<lparr>timeout = seconds 30, connected = True, stdin = [], stdin_broken = False,
      reader = [], abandoned = 0\<rparr>"

section \<open>HTTP exchanges (http, sse)\<close>




subsection \<open>The http transport\<close>



subsection \<open>The event-stream transport\<close>

text \<open>
  An inbound event is decoded by \<^verbatim>\<open>json.Unmarshal\<close> into a \<^verbatim>\<open>JSONRPCResponse\<close>, whose
  \<^verbatim>\<open>ID\<close> has the type \<^verbatim>\<open>interface{}\<close>: a JSON number becomes a \<^verbatim>\<open>float64\<close>
  (\<open>IdNum\<close>; the ids in use are whole numbers), a JSON string a Go string (\<open>IdStr\<close>),
  and \<^verbatim>\<open>null\<close> or no id at all the nil interface (\<open>None\<close>). The decoder is outside
  the program: the handler below takes what it made of the data, \<open>None\<close> when it
  failed.
\<close>

record JSONRPCResponse =
  rpc_ID :: "rpc_id option"
  rpc_Result :: string
  rpc_Error :: "string option"

text \<open>The correlation table \<^verbatim>\<open>map[int]chan json.RawMessage\<close>; every channel in it was
  made with room for one result.\<close>

record SSETransport =
  sse_timeout :: int
  sse_connected :: bool
  sse_url_ok :: bool
  responses :: "(int \<times> string list) list"

definition slot_send :: "string \<Rightarrow> string list \<Rightarrow> string list" where
  "slot_send v slot = (if length slot < 1 then slot @ [v] else slot)"

text \<open>
  \<^verbatim>\<open>handleSSEMessage\<close>. A decoding error is printed and the message dropped. With an id
  present, \<^verbatim>\<open>int(msg.ID.(float64))\<close> is the key into the table: the type assertion has
  no second result, so on an id that is not a \<^verbatim>\<open>float64\<close> it panics. The result goes
  to the slot found under the key with a non-blocking send; a message with no slot is
  dropped.
\<close>

definition handleSSEMessage :: "JSONRPCResponse option \<Rightarrow> SSETransport \<Rightarrow> SSETransport outcome" where
  "handleSSEMessage decoded t =
     (case decoded of
        None \<Rightarrow> Returns t
      | Some msg \<Rightarrow>
          (case rpc_ID msg of
             None \<Rightarrow> Returns t
           | Some (IdStr s) \<Rightarrow> Panics ''interface conversion: interface {} is string, not float64''
           | Some (IdNum n) \<Rightarrow>
               (case map_of (responses t) n of
                  None \<Rightarrow> Returns t
                | Some ch \<Rightarrow>
                    Returns (t\<lparr>responses := AList.update n (slot_send (rpc_Result msg) ch) (responses t)\<rparr>))))"



subsection \<open>Test inputs for the HTTP transports\<close>



section \<open>What the transports promise\<close>

subsection \<open>Which line a request gets\<close>










text \<open>After a request that timed out on a silent peer, the read it left behind takes the
  next line: the answer to the next request is lost and that request times out too.\<close>

lemma abandoned_read_takes_the_next_line:
  "StdioTransport_SendRequest Background (request 1) silent_peer
     = (Inl (RequestTimeout (seconds 30)), silent_peer\<lparr>stdin := [request 1], abandoned := 1\<rparr>)"
  "fst (StdioTransport_SendRequest Background (request 2)
          (silent_peer\<lparr>stdin := [request 1], abandoned := 1, reader := [Arrives 0 (response 2)]\<rparr>))
     = Inl (RequestTimeout (seconds 30))"
  by (simp_all add: StdioTransport_SendRequest_def silent_peer_def Let_def select_response_def
      select_timeout_def Background_def Done_at_def apply_timeout_def after_wait_def)

subsection \<open>How long a request waits\<close>










subsection \<open>Ids the event-stream reader can take\<close>

text \<open>
  Claim C5 asks that the handler routes or drops every well-formed envelope and never
  panics on an id that is not a number. The code does so for an absent id, for a
  numeric id and for data that does not decode, and panics on every string id: the
  claim fails on the code at, for one, a response with the id \<open>abc\<close>.
\<close>

theorem handleSSEMessage_string_id_panics:
  "handleSSEMessage (Some (msg\<lparr>rpc_ID := Some (IdStr s)\<rparr>)) t
     = Panics ''interface conversion: interface {} is string, not float64''
   \<and> handleSSEMessage (Some \<lparr>rpc_ID = Some (IdStr ''abc''), rpc_Result = ''{}'', rpc_Error = None\<rparr>)
         \<lparr>sse_timeout = 30000000000, sse_connected = True, sse_url_ok = True,
          responses = [(1, [])]\<rparr>
     = Panics ''interface conversion: interface {} is string, not float64''
   \<and> handleSSEMessage (Some \<lparr>rpc_ID = Some (IdNum 1), rpc_Result = ''{}'', rpc_Error = None\<rparr>)
         \<lparr>sse_timeout = 30000000000, sse_connected = True, sse_url_ok = True,
          responses = [(1, [])]\<rparr>
     = Returns \<lparr>sse_timeout = 30000000000, sse_connected = True, sse_url_ok = True,
                responses = [(1, [''{}''])]\<rparr>
   \<and> handleSSEMessage (Some (msg\<lparr>rpc_ID := None\<rparr>)) t = Returns t
   \<and> handleSSEMessage None t = Returns t"
  by (simp add: handleSSEMessage_def slot_send_def)

end
